theory Spec2Isabelle
  imports Main
begin

section \<open>The dependency tree provider of vscode-monorepo-tools\<close>

text \<open>
  A shallow embedding of \<^verbatim>\<open>src/dependencyProvider.ts\<close>, the class
  \<^verbatim>\<open>MonorepoDependenciesProvider\<close>. The provider object is a record that every
  method takes and returns; a method that can throw returns its outcome as a sum next
  to the provider, because assignments made before the throw stay in place.
\<close>

subsection \<open>JavaScript values\<close>

text \<open>
  \<^verbatim>\<open>TypeError\<close> is what the runtime raises for a property read on
  \<^verbatim>\<open>undefined\<close>, for destructuring \<^verbatim>\<open>undefined\<close> and for
  \<^verbatim>\<open>path.join\<close> on a non-string. \<^verbatim>\<open>ReadError\<close> stands for whatever
  \<^verbatim>\<open>readJson\<close> may throw.
\<close>

datatype js_error = TypeError | ReadError

text \<open>A string that may be \<^verbatim>\<open>undefined\<close> is a \<open>string option\<close>.\<close>

definition truthy :: "string option \<Rightarrow> bool" where
  "truthy v = (case v of None \<Rightarrow> False | Some s \<Rightarrow> s \<noteq> [])"

text \<open>The operator \<^verbatim>\<open>a || b\<close> on such strings.\<close>

definition js_or :: "string option \<Rightarrow> string option \<Rightarrow> string option" where
  "js_or a b = (if truthy a then a else b)"

text \<open>A value inside a template literal: \<^verbatim>\<open>`${v}`\<close>.\<close>

definition js_str :: "string option \<Rightarrow> string" where
  "js_str v = (case v of None \<Rightarrow> ''undefined'' | Some s \<Rightarrow> s)"

definition digit_char :: "nat \<Rightarrow> char" where
  "digit_char d = ''0123456789'' ! d"

text \<open>A non-negative integer inside a template literal (decimal digits).\<close>

fun show_nat :: "nat \<Rightarrow> string" where
  "show_nat n =
     (if n < 10 then [digit_char n] else show_nat (n div 10) @ [digit_char (n mod 10)])"

declare show_nat.simps [simp del]

subsection \<open>\<^verbatim>\<open>Map\<close>: keys in insertion order\<close>

text \<open>
  A \<^verbatim>\<open>Map<string, V>\<close> is the list of its entries in insertion order.
  \<^verbatim>\<open>set\<close> on a key that is present replaces the value where it stands; a new key
  goes to the end.
\<close>

fun map_set :: "'k \<Rightarrow> 'v \<Rightarrow> ('k \<times> 'v) list \<Rightarrow> ('k \<times> 'v) list" where
  "map_set k v [] = [(k, v)]"
| "map_set k v ((k', v') # es) =
     (if k' = k then (k, v) # es else (k', v') # map_set k v es)"

definition map_get :: "('k \<times> 'v) list \<Rightarrow> 'k \<Rightarrow> 'v option" where
  "map_get es k = map_of es k"

definition map_size :: "('k \<times> 'v) list \<Rightarrow> nat" where
  "map_size es = length es"

definition map_values :: "('k \<times> 'v) list \<Rightarrow> 'v list" where
  "map_values es = map snd es"

subsection \<open>Data\<close>

text \<open>
  \<^verbatim>\<open>PackageInfo\<close> of workspace-tools: the fields this file relies on.
\<close>

record package_info =
  pi_name :: string
  pi_version :: string
  pi_packageJsonPath :: string

text \<open>
  What \<^verbatim>\<open>readJson\<close> returns: a parsed manifest object, whose
  \<^verbatim>\<open>name\<close> and \<^verbatim>\<open>version\<close> may be missing, or
  \<^verbatim>\<open>null\<close>/\<^verbatim>\<open>undefined\<close>.
\<close>

record manifest =
  pj_name :: "string option"
  pj_version :: "string option"

datatype json = Nullish | Object manifest

datatype TreeItemCollapsibleState = StateNone | Collapsed | Expanded

text \<open>
  The object a tree item wraps. For a package it is
  \<^verbatim>\<open>{...workspace, tool, children}\<close>, for the root
  \<^verbatim>\<open>{...workspacePackage, packageJsonPath, tool}\<close>. A \<^verbatim>\<open>Set<string>\<close>
  is the list of its members in insertion order.
\<close>

record workspace_info =
  ws_name :: "string option"
  ws_version :: "string option"
  ws_packageJsonPath :: "string option"
  ws_tool :: "string option"
  ws_children :: "string list option"

text \<open>
  Modelled from the spec: the class \<^verbatim>\<open>DependencyTreeItem\<close> of
  \<^verbatim>\<open>./dependency\<close> is not among the sources. A tree node wraps one package, its
  out-edge name set and a collapse-state hint; the root node is a synthetic aggregate.
  The constructor keeps its three arguments (an omitted \<^verbatim>\<open>root\<close> is falsy) and
  this file assigns \<^verbatim>\<open>description\<close> on the root only.
\<close>

record DependencyTreeItem =
  workspace :: workspace_info
  collapsibleState :: TreeItemCollapsibleState
  root :: bool
  description :: "string option"

definition new_DependencyTreeItem ::
  "workspace_info \<Rightarrow> TreeItemCollapsibleState \<Rightarrow> bool \<Rightarrow> DependencyTreeItem" where
  "new_DependencyTreeItem w st r =
     \<lparr>workspace = w, collapsibleState = st, root = r, description = None\<rparr>"

subsection \<open>Collaborators\<close>

text \<open>
  The functions of \<^verbatim>\<open>./workspaces\<close>, \<^verbatim>\<open>./readJson\<close>,
  \<^verbatim>\<open>pkg-up\<close>, \<^verbatim>\<open>path\<close> and the configuration value are parameters.
  \<^item> \<open>getWorkspaces root\<close> is \<^verbatim>\<open>Object.entries(getWorkspaces(root))\<close>: the
    packages in enumeration order. The keys of an object are distinct.
  \<^item> \<open>getDependencyTree ws\<close> is the lookup \<^verbatim>\<open>tree.get\<close> of the resulting map.
  \<^item> \<open>getWorkspaceRoot\<close> may return \<^verbatim>\<open>undefined\<close>; the source asserts
    otherwise with \<^verbatim>\<open>!\<close>, which checks nothing at run time.
  \<^item> \<open>pkgUp cwd\<close> is the awaited \<^verbatim>\<open>pkgUp({ cwd })\<close>: the nearest manifest
    or \<^verbatim>\<open>null\<close>.
  \<^item> \<open>readJson\<close> receives whatever it is handed, also \<^verbatim>\<open>null\<close>, and may throw.
  \<^item> \<open>workspaceToolOverride\<close> is
    \<^verbatim>\<open>workspace.getConfiguration("monorepoTools").get("workspaceToolOverride")\<close>.
\<close>

record env =
  getWorkspaces :: "string \<Rightarrow> (string \<times> package_info) list"
  getDependencyTree :: "(string \<times> package_info) list \<Rightarrow> string \<Rightarrow> string list option"
  getWorkspaceTool :: "string \<Rightarrow> string option"
  getWorkspaceRoot :: "string \<Rightarrow> string option"
  workspaceToolOverride :: "string option"
  readJson :: "string option \<Rightarrow> js_error + json"
  pkgUp :: "string \<Rightarrow> string option"
  path_join :: "string \<Rightarrow> string \<Rightarrow> string"
  path_dirname :: "string \<Rightarrow> string"

subsection \<open>The provider\<close>

text \<open>
  The fields of the class, and two logs for what it sends out: \<open>fired\<close> counts the
  calls of \<^verbatim>\<open>_onDidChangeTreeData.fire()\<close>, \<open>shown\<close> lists the messages given
  to \<^verbatim>\<open>window.showInformationMessage\<close>, oldest first.
\<close>

record provider =
  workspaceRoot :: string
  workspacePkgJson :: json
  workspaceTool :: "string option"
  rootPkg :: "DependencyTreeItem option"
  graph :: "(string \<times> string list) list"
  items :: "(string \<times> DependencyTreeItem) list"
  activePackage :: "DependencyTreeItem option"
  fired :: nat
  shown :: "string list"

definition constructor :: "string \<Rightarrow> json \<Rightarrow> provider" where
  "constructor wr pkgJson =
     \<lparr>workspaceRoot = wr, workspacePkgJson = pkgJson, workspaceTool = None,
      rootPkg = None, graph = [], items = [], activePackage = None,
      fired = 0, shown = []\<rparr>"

definition refresh :: "provider \<Rightarrow> provider" where
  "refresh s = s\<lparr>fired := fired s + 1\<rparr>"

definition refreshGraph :: "provider \<Rightarrow> provider" where
  "refreshGraph s = refresh s"

definition clearGraph :: "provider \<Rightarrow> provider" where
  "clearGraph s = s\<lparr>graph := [], items := []\<rparr>"

subsection \<open>\<^verbatim>\<open>loadDependencyTree\<close>\<close>

text \<open>The body of the \<^verbatim>\<open>for\<close> loop: the item made for one entry.\<close>

definition load_item ::
  "(string \<Rightarrow> string list option) \<Rightarrow> string option \<Rightarrow> string \<Rightarrow> package_info
     \<Rightarrow> DependencyTreeItem" where
  "load_item tree tool name w =
     (let children = (case tree name of None \<Rightarrow> [] | Some c \<Rightarrow> c);
          workspaceInfo =
            \<lparr>ws_name = Some (pi_name w), ws_version = Some (pi_version w),
             ws_packageJsonPath = Some (pi_packageJsonPath w),
             ws_tool = tool, ws_children = Some children\<rparr>;
          state = (if length children \<noteq> 0 then Collapsed else StateNone)
      in new_DependencyTreeItem workspaceInfo state False)"

fun load_loop ::
  "(string \<Rightarrow> string list option) \<Rightarrow> string option \<Rightarrow> (string \<times> package_info) list
     \<Rightarrow> (string \<times> DependencyTreeItem) list \<Rightarrow> (string \<times> DependencyTreeItem) list" where
  "load_loop tree tool [] its = its"
| "load_loop tree tool ((name, w) # ws) its =
     load_loop tree tool ws (map_set name (load_item tree tool name w) its)"

record loaded =
  ld_workspaces :: "(string \<times> package_info) list"
  ld_tree :: "string \<Rightarrow> string list option"
  ld_tool :: "string option"
  ld_items :: "(string \<times> DependencyTreeItem) list"

text \<open>
  \<^verbatim>\<open>this.items\<close> and the local \<^verbatim>\<open>items\<close> are one \<^verbatim>\<open>Map\<close>, so
  the field holds the filled map when the loop is over.
\<close>

definition loadDependencyTree :: "env \<Rightarrow> string \<Rightarrow> provider \<Rightarrow> loaded \<times> provider" where
  "loadDependencyTree e r s =
     (let workspaces = getWorkspaces e r;
          tree = getDependencyTree e workspaces;
          tool = js_or (workspaceToolOverride e) (getWorkspaceTool e r);
          its = load_loop tree tool workspaces []
      in (\<lparr>ld_workspaces = workspaces, ld_tree = tree, ld_tool = tool, ld_items = its\<rparr>,
          s\<lparr>items := its\<rparr>))"

subsection \<open>\<^verbatim>\<open>getRootItem\<close>\<close>

definition getRootItem ::
  "env \<Rightarrow> (string \<times> DependencyTreeItem) list \<Rightarrow> provider
     \<Rightarrow> (js_error + DependencyTreeItem) \<times> provider" where
  "getRootItem e its s =
     (case getWorkspaceRoot e (workspaceRoot s) of
        None \<Rightarrow> (Inl TypeError, s)
      | Some wr \<Rightarrow>
          (case readJson e (Some (path_join e wr ''package.json'')) of
             Inl err \<Rightarrow> (Inl err, s)
           | Inr workspacePackage \<Rightarrow>
               (let tool = js_or (workspaceToolOverride e) (getWorkspaceTool e wr);
                    s1 = s\<lparr>workspaceTool := js_or tool (Some ''npm run'')\<rparr>;
                    info =
                      (case workspacePackage of
                         Nullish \<Rightarrow>
                           \<lparr>ws_name = None, ws_version = None,
                            ws_packageJsonPath = Some (path_join e wr ''package.json''),
                            ws_tool = tool, ws_children = None\<rparr>
                       | Object m \<Rightarrow>
                           \<lparr>ws_name = pj_name m, ws_version = pj_version m,
                            ws_packageJsonPath = Some (path_join e wr ''package.json''),
                            ws_tool = tool, ws_children = None\<rparr>);
                    rootDependency =
                      (new_DependencyTreeItem info Expanded True)
                        \<lparr>description := Some (show_nat (map_size its) @ '' packages'')\<rparr>
                in (Inr rootDependency, s1\<lparr>rootPkg := Some rootDependency\<rparr>))))"

subsection \<open>\<^verbatim>\<open>getChildren\<close>\<close>

text \<open>
  The callback of \<^verbatim>\<open>keys.map\<close>, run over the keys from left to right.
  \<^verbatim>\<open>dep\<close> is \<^verbatim>\<open>undefined\<close> for a name the map does not hold; reading
  \<^verbatim>\<open>dep.workspace.name\<close> then throws before anything is shown.
\<close>

definition circular_message :: "string option \<Rightarrow> string option \<Rightarrow> string" where
  "circular_message a b = ''Circular dependency: '' @ js_str a @ '' -> '' @ js_str b"

definition keys_includes :: "string list \<Rightarrow> string option \<Rightarrow> bool" where
  "keys_includes keys v = (case v of None \<Rightarrow> False | Some n \<Rightarrow> n \<in> set keys)"

text \<open>The element a callback returns goes in front of what the later callbacks return.\<close>

definition push_front ::
  "'a \<Rightarrow> (js_error + 'a list) \<times> provider \<Rightarrow> (js_error + 'a list) \<times> provider" where
  "push_front d r = (case r of (Inl err, s) \<Rightarrow> (Inl err, s) | (Inr ds, s) \<Rightarrow> (Inr (d # ds), s))"

fun map_keys ::
  "(string \<times> DependencyTreeItem) list \<Rightarrow> DependencyTreeItem \<Rightarrow> string list \<Rightarrow> string list
     \<Rightarrow> provider \<Rightarrow> (js_error + DependencyTreeItem option list) \<times> provider" where
  "map_keys its element keys [] s = (Inr [], s)"
| "map_keys its element keys (name # rest) s =
     (let dep = map_get its name in
      if keys_includes keys (ws_name (workspace element)) then
        (case dep of
           None \<Rightarrow> (Inl TypeError, s)
         | Some d \<Rightarrow>
             push_front dep
               (map_keys its element keys rest
                  (s\<lparr>shown := shown s @
                       [circular_message (ws_name (workspace element))
                          (ws_name (workspace d))]\<rparr>)))
      else push_front dep (map_keys its element keys rest s))"

text \<open>
  The argument is \<open>None\<close> for the top-level query. The array returned may hold
  \<^verbatim>\<open>undefined\<close>, so its elements are options.
\<close>

definition getChildren ::
  "env \<Rightarrow> DependencyTreeItem option \<Rightarrow> provider
     \<Rightarrow> (js_error + DependencyTreeItem option list) \<times> provider" where
  "getChildren e element s =
     (let (ld, s1) = loadDependencyTree e (workspaceRoot s) s;
          its = ld_items ld
      in case element of
           None \<Rightarrow>
             (if map_size its = 0 then (Inr [], s1)
              else (case getRootItem e its s1 of
                      (Inl err, s2) \<Rightarrow> (Inl err, s2)
                    | (Inr r, s2) \<Rightarrow> (Inr [Some r], s2)))
         | Some el \<Rightarrow>
             (if root el then (Inr (map Some (map_values its)), s1)
              else (case ws_children (workspace el) of
                      None \<Rightarrow> (Inr [], s1)
                    | Some keys \<Rightarrow>
                        (if length keys \<noteq> 0 then map_keys its el keys keys s1
                         else (Inr [], s1)))))"

subsection \<open>\<^verbatim>\<open>getFirst\<close>\<close>

text \<open>
  \<^verbatim>\<open>items.entries().next().value\<close> is \<^verbatim>\<open>undefined\<close> on an empty map,
  and the array pattern \<^verbatim>\<open>[, pkg]\<close> throws on it.
\<close>

definition getFirst :: "env \<Rightarrow> provider \<Rightarrow> (js_error + DependencyTreeItem) \<times> provider" where
  "getFirst e s =
     (let (ld, s1) = loadDependencyTree e (workspaceRoot s) s
      in case ld_items ld of
           [] \<Rightarrow> (Inl TypeError, s1)
         | (k, pkg) # rest \<Rightarrow> (Inr pkg, s1))"

subsection \<open>\<^verbatim>\<open>setActiveFile\<close>\<close>

definition setActiveFile :: "env \<Rightarrow> string \<Rightarrow> provider \<Rightarrow> (js_error + unit) \<times> provider" where
  "setActiveFile e filename s =
     (let cwd = path_dirname e filename;
          packageForFilename = pkgUp e cwd;
          wr = getWorkspaceRoot e cwd
      in case readJson e packageForFilename of
           Inl err \<Rightarrow> (Inl err, s)
         | Inr activeJson \<Rightarrow>
             (case wr of
                None \<Rightarrow> (Inl TypeError, s)
              | Some wsRoot \<Rightarrow>
                  (case readJson e (Some (path_join e wsRoot ''package.json'')) of
                     Inl err \<Rightarrow> (Inl err, s)
                   | Inr workspacePackage \<Rightarrow>
                       (let oldWorkspace = workspaceRoot s;
                            s1 = s\<lparr>workspaceRoot := wsRoot,
                                   workspacePkgJson := workspacePackage\<rparr>
                        in case activeJson of
                             Nullish \<Rightarrow> (Inl TypeError, s1)
                           | Object m \<Rightarrow>
                               (let s2 = s1\<lparr>activePackage :=
                                            (case pj_name m of
                                               None \<Rightarrow> None
                                             | Some n \<Rightarrow> map_get (items s1) n)\<rparr>
                                in if wsRoot = oldWorkspace then (Inr (), s2)
                                   else (Inr (), refresh s2))))))"

subsection \<open>\<^verbatim>\<open>statusText\<close> and \<^verbatim>\<open>titleText\<close>\<close>

definition statusText :: "provider \<Rightarrow> string" where
  "statusText s =
     (case workspacePkgJson s of
        Nullish \<Rightarrow> ''Workspace: Loading...''
      | Object m \<Rightarrow>
          ''Workspace: '' @ js_str (pj_name m) @ '', '' @ show_nat (map_size (items s))
            @ '' packages'')"

definition titleText :: "provider \<Rightarrow> string" where
  "titleText s =
     (case workspacePkgJson s of
        Nullish \<Rightarrow> ''Workspace: Loading...''
      | Object m \<Rightarrow> ''Dependency Graph'')"

subsection \<open>Specification-side notions\<close>

text \<open>
  The collapse-state hint in the words of the specification: a non-empty out-edge set
  is expandable (collapsed), an empty one is a leaf (none).
\<close>

definition collapse_hint :: "string list \<Rightarrow> TreeItemCollapsibleState" where
  "collapse_hint out_edges = (if out_edges = [] then StateNone else Collapsed)"

text \<open>
  One node per package of the workspace at root \<open>r\<close>, in the order in which the
  packages are enumerated.
\<close>

definition package_nodes :: "env \<Rightarrow> string \<Rightarrow> DependencyTreeItem list" where
  "package_nodes e r =
     map (\<lambda>(name, w).
            load_item (getDependencyTree e (getWorkspaces e r))
              (js_or (workspaceToolOverride e) (getWorkspaceTool e r)) name w)
         (getWorkspaces e r)"

subsection \<open>Example workspaces\<close>

text \<open>
  The workspace \<open>/repo\<close> has the packages \<open>app\<close>, \<open>lib-a\<close> and \<open>lib-b\<close>, where
  \<open>app\<close> depends on \<open>lib-a\<close> and \<open>lib-a\<close> on \<open>lib-b\<close>; the workspace \<open>/other\<close>
  has the single package \<open>tool\<close>. Paths are POSIX paths.
\<close>

definition pkg_info :: "string \<Rightarrow> string \<Rightarrow> package_info" where
  "pkg_info dir n =
     \<lparr>pi_name = n, pi_version = ''1.0.0'',
      pi_packageJsonPath = dir @ ''/packages/'' @ n @ ''/package.json''\<rparr>"

definition named :: "string \<Rightarrow> json" where
  "named n = Object \<lparr>pj_name = Some n, pj_version = Some ''1.0.0''\<rparr>"

definition disk :: "(string \<times> json) list" where
  "disk =
     [(''/repo/package.json'', named ''repo''),
      (''/repo/packages/app/package.json'', named ''app''),
      (''/repo/packages/lib-a/package.json'', named ''lib-a''),
      (''/repo/packages/lib-b/package.json'', named ''lib-b''),
      (''/other/package.json'', named ''other''),
      (''/other/packages/tool/package.json'', named ''tool''),
      (''/mono/packages/pkg/package.json'', named ''pkg'')]"

text \<open>
  For a directory, the nearest manifest at or above it and the workspace root that owns
  it. \<open>/mono\<close> is a workspace with the single package \<open>pkg\<close> and no manifest at
  its root; nothing owns \<open>/tmp\<close>.
\<close>

definition nearest :: "(string \<times> string) list" where
  "nearest =
     [(''/repo/packages/app/src'', ''/repo/packages/app/package.json''),
      (''/repo/packages/lib-a/src'', ''/repo/packages/lib-a/package.json''),
      (''/other/packages/tool/src'', ''/other/packages/tool/package.json''),
      (''/mono/packages/pkg/src'', ''/mono/packages/pkg/package.json''),
      (''/repo'', ''/repo/package.json''),
      (''/other'', ''/other/package.json'')]"

definition roots :: "(string \<times> string) list" where
  "roots =
     [(''/repo/packages/app/src'', ''/repo''),
      (''/repo/packages/lib-a/src'', ''/repo''),
      (''/other/packages/tool/src'', ''/other''),
      (''/repo'', ''/repo''),
      (''/other'', ''/other''),
      (''/mono/packages/pkg/src'', ''/mono''),
      (''/mono/docs'', ''/mono''),
      (''/mono'', ''/mono'')]"

definition dirname_posix :: "string \<Rightarrow> string" where
  "dirname_posix p = rev (tl (dropWhile (\<lambda>c. c \<noteq> CHR ''/'') (rev p)))"

definition repo_env :: env where
  "repo_env =
     \<lparr>getWorkspaces =
        (\<lambda>r. if r = ''/repo''
              then [(''app'', pkg_info r ''app''), (''lib-a'', pkg_info r ''lib-a''),
                    (''lib-b'', pkg_info r ''lib-b'')]
              else if r = ''/other'' then [(''tool'', pkg_info r ''tool'')]
              else if r = ''/mono'' then [(''pkg'', pkg_info r ''pkg'')]
              else []),
      getDependencyTree =
        (\<lambda>ws. map_of [(''app'', [''lib-a'']), (''lib-a'', [''lib-b'']), (''lib-b'', []),
                        (''tool'', []), (''pkg'', [])]),
      getWorkspaceTool = (\<lambda>r. if r = ''/repo'' then Some ''yarn'' else None),
      getWorkspaceRoot = map_of roots,
      workspaceToolOverride = None,
      readJson =
        (\<lambda>p. case p of
                None \<Rightarrow> Inl ReadError
              | Some q \<Rightarrow> (case map_of disk q of None \<Rightarrow> Inl ReadError | Some j \<Rightarrow> Inr j)),
      pkgUp = map_of nearest,
      path_join = (\<lambda>a b. a @ ''/'' @ b),
      path_dirname = dirname_posix\<rparr>"

definition repo_provider :: provider where
  "repo_provider = constructor ''/repo'' (named ''repo'')"

text \<open>Packages \<open>A\<close> and \<open>B\<close> that depend on each other.\<close>

definition cycle_env :: env where
  "cycle_env =
     repo_env
       \<lparr>getWorkspaces := (\<lambda>r. [(''A'', pkg_info r ''A''), (''B'', pkg_info r ''B'')]),
        getDependencyTree := (\<lambda>ws. map_of [(''A'', [''B'']), (''B'', [''A''])])\<rparr>"

text \<open>The node a load of root \<open>r\<close> makes for the package named \<open>n\<close>.\<close>

definition node :: "env \<Rightarrow> string \<Rightarrow> string \<Rightarrow> DependencyTreeItem" where
  "node e r n =
     load_item (getDependencyTree e (getWorkspaces e r))
       (js_or (workspaceToolOverride e) (getWorkspaceTool e r)) n (pkg_info r n)"

text \<open>
  A node of an earlier load of \<open>/repo\<close>, when \<open>app\<close> still depended on a package
  \<open>lib-c\<close> that has left the workspace since.
\<close>

definition stale_app :: DependencyTreeItem where
  "stale_app =
     (node repo_env ''/repo'' ''app'')
       \<lparr>workspace := (workspace (node repo_env ''/repo'' ''app''))
          \<lparr>ws_children := Some [''lib-a'', ''lib-c'']\<rparr>\<rparr>"

text \<open>A manifest reader that answers with an empty object whatever it cannot read.\<close>

definition lenient_env :: env where
  "lenient_env =
     repo_env
       \<lparr>readJson :=
          (\<lambda>p. case readJson repo_env p of
                  Inl err \<Rightarrow> Inr (Object \<lparr>pj_name = None, pj_version = None\<rparr>)
                | Inr j \<Rightarrow> Inr j)\<rparr>"

text \<open>The root node the top-level query returns for \<open>/repo\<close>.\<close>

definition repo_root :: DependencyTreeItem where
  "repo_root =
     (new_DependencyTreeItem
        \<lparr>ws_name = Some ''repo'', ws_version = Some ''1.0.0'',
         ws_packageJsonPath = Some ''/repo/package.json'',
         ws_tool = Some ''yarn'', ws_children = None\<rparr> Expanded True)
       \<lparr>description := Some ''3 packages''\<rparr>"



section \<open>Properties\<close>

subsection \<open>The map and the load loop\<close>

lemma map_set_fresh: "k \<notin> fst ` set es \<Longrightarrow> map_set k v es = es @ [(k, v)]"
  by (induction es) auto

lemma map_set_mem:
  "(a, b) \<in> set (map_set k v es) \<Longrightarrow> (a, b) \<in> set es \<or> (a = k \<and> b = v)"
  by (induction es) (auto split: if_splits)

lemma load_loop_distinct:
  "distinct (map fst its @ map fst ws) \<Longrightarrow>
   load_loop tree tool ws its = its @ map (\<lambda>(n, w). (n, load_item tree tool n w)) ws"
proof (induction ws arbitrary: its)
  case Nil
  then show ?case by simp
next
  case (Cons p ws)
  obtain n w where p: "p = (n, w)" by (cases p)
  from Cons.prems have fresh: "n \<notin> fst ` set its"
    by (auto simp: p)
  from Cons.prems
  have d: "distinct (map fst (its @ [(n, load_item tree tool n w)]) @ map fst ws)"
    by (auto simp: p)
  have "load_loop tree tool (p # ws) its =
        load_loop tree tool ws (its @ [(n, load_item tree tool n w)])"
    using fresh by (simp add: p map_set_fresh)
  also have "\<dots> = (its @ [(n, load_item tree tool n w)]) @
        map (\<lambda>(n, w). (n, load_item tree tool n w)) ws"
    by (rule Cons.IH [OF d])
  finally show ?case by (simp add: p)
qed

lemma load_loop_mem:
  "(n, it) \<in> set (load_loop tree tool ws its) \<Longrightarrow>
   (n, it) \<in> set its \<or> (\<exists>w. (n, w) \<in> set ws \<and> it = load_item tree tool n w)"
proof (induction ws arbitrary: its)
  case Nil
  then show ?case by simp
next
  case (Cons p ws)
  obtain m w where p: "p = (m, w)" by (cases p)
  from Cons.prems
  have "(n, it) \<in> set (load_loop tree tool ws (map_set m (load_item tree tool m w) its))"
    by (simp add: p)
  from Cons.IH [OF this] show ?case
    using map_set_mem by (fastforce simp: p)
qed

lemma loadDependencyTree_items:
  "ld_items (fst (loadDependencyTree e r s)) =
     load_loop (getDependencyTree e (getWorkspaces e r))
       (js_or (workspaceToolOverride e) (getWorkspaceTool e r)) (getWorkspaces e r) []"
  by (simp add: loadDependencyTree_def Let_def)

lemma loadDependencyTree_state:
  "snd (loadDependencyTree e r s) = s\<lparr>items := ld_items (fst (loadDependencyTree e r s))\<rparr>"
  by (simp add: loadDependencyTree_def Let_def)

lemma loaded_items_distinct:
  assumes "distinct (map fst (getWorkspaces e r))"
  shows "ld_items (fst (loadDependencyTree e r s)) =
           zip (map fst (getWorkspaces e r)) (package_nodes e r)"
proof -
  have z: "\<And>f xs. zip (map fst xs) (map (\<lambda>(n, w). f n w) xs) = map (\<lambda>(n, w). (n, f n w)) xs"
    subgoal for f xs by (induction xs) auto
    done
  show ?thesis
    using load_loop_distinct [of "[]" "getWorkspaces e r"] assms
    by (simp add: loadDependencyTree_items package_nodes_def z)
qed

lemma length_package_nodes: "length (package_nodes e r) = length (getWorkspaces e r)"
  by (simp add: package_nodes_def)

subsection \<open>\<^verbatim>\<open>getChildren\<close>\<close>



lemma map_keys_quiet:
  "\<not> keys_includes keys (ws_name (workspace el)) \<Longrightarrow>
   map_keys its el keys ks s = (Inr (map (map_get its) ks), s)"
  by (induction ks) (simp_all add: Let_def push_front_def)




lemma getChildren_root_raw:
  "root el \<Longrightarrow>
   getChildren e (Some el) s =
     (Inr (map Some (map_values (ld_items (fst (loadDependencyTree e (workspaceRoot s) s))))),
      snd (loadDependencyTree e (workspaceRoot s) s))"
  by (simp add: getChildren_def Let_def split: prod.splits)

text \<open>
  Claim C2. With the keys of the workspaces object distinct, \<^verbatim>\<open>getChildren\<close> on the
  root node returns one node per package of the load it has just made, in the order
  in which the packages were enumerated, and as many nodes as the package count that
  \<^verbatim>\<open>statusText\<close> prints afterwards.
\<close>

theorem getChildren_root_lists_every_package:
  assumes "root el"
    and "distinct (map fst (getWorkspaces e (workspaceRoot s)))"
  shows "\<exists>res s'. getChildren e (Some el) s = (Inr res, s') \<and>
           res = map Some (package_nodes e (workspaceRoot s)) \<and>
           map fst (items s') = map fst (getWorkspaces e (workspaceRoot s)) \<and>
           length res = length (getWorkspaces e (workspaceRoot s)) \<and>
           map_size (items s') = length res \<and>
           statusText s' =
             (case workspacePkgJson s of
                Nullish \<Rightarrow> ''Workspace: Loading...''
              | Object m \<Rightarrow>
                  ''Workspace: '' @ js_str (pj_name m) @ '', '' @ show_nat (length res)
                    @ '' packages'')"
proof -
  let ?r = "workspaceRoot s"
  let ?its = "ld_items (fst (loadDependencyTree e ?r s))"
  have its: "?its = zip (map fst (getWorkspaces e ?r)) (package_nodes e ?r)"
    by (rule loaded_items_distinct [OF assms(2)])
  have len: "length (map fst (getWorkspaces e ?r)) = length (package_nodes e ?r)"
    by (simp add: length_package_nodes)
  have vals: "map_values ?its = package_nodes e ?r"
    unfolding its map_values_def using len by (rule map_snd_zip)
  have keys: "map fst ?its = map fst (getWorkspaces e ?r)"
    unfolding its using len by (rule map_fst_zip)
  have size: "map_size ?its = length (getWorkspaces e ?r)"
    using arg_cong [OF keys, of length] by (simp add: map_size_def)
  have st: "snd (loadDependencyTree e ?r s) = s\<lparr>items := ?its\<rparr>"
    by (rule loadDependencyTree_state)
  have status: "statusText (s\<lparr>items := ?its\<rparr>) =
      (case workspacePkgJson s of
         Nullish \<Rightarrow> ''Workspace: Loading...''
       | Object m \<Rightarrow>
           ''Workspace: '' @ js_str (pj_name m) @ '', '' @
             show_nat (length (getWorkspaces e ?r)) @ '' packages'')"
    by (cases "workspacePkgJson s") (simp_all add: statusText_def size)
  show ?thesis
    unfolding getChildren_root_raw [OF assms(1)] st
    by (simp add: vals keys size length_package_nodes status split: json.splits)
qed

theorem getChildren_root_lists_every_package_witness:
  "root repo_root \<and> distinct (map fst (getWorkspaces repo_env (workspaceRoot repo_provider))) \<and>
   fst (getChildren repo_env (Some repo_root) repo_provider) =
     Inr [Some (node repo_env ''/repo'' ''app''), Some (node repo_env ''/repo'' ''lib-a''),
          Some (node repo_env ''/repo'' ''lib-b'')] \<and>
   statusText (snd (getChildren repo_env (Some repo_root) repo_provider)) =
     ''Workspace: repo, 3 packages''"
proof -
  have r: "root repo_root"
    by (simp add: repo_root_def new_DependencyTreeItem_def)
  have d: "distinct (map fst (getWorkspaces repo_env (workspaceRoot repo_provider)))"
    by (simp add: repo_env_def repo_provider_def constructor_def)
  have n: "show_nat 3 = ''3''"
    by (simp add: show_nat.simps digit_char_def)
  have p: "package_nodes repo_env ''/repo'' =
      [node repo_env ''/repo'' ''app'', node repo_env ''/repo'' ''lib-a'',
       node repo_env ''/repo'' ''lib-b'']"
    by (simp add: package_nodes_def node_def repo_env_def)
  have w: "workspaceRoot repo_provider = ''/repo''"
    "workspacePkgJson repo_provider = named ''repo''"
    by (simp_all add: repo_provider_def constructor_def)
  from getChildren_root_lists_every_package [OF r d]
  obtain res s' where g: "getChildren repo_env (Some repo_root) repo_provider = (Inr res, s')"
    and res: "res = map Some (package_nodes repo_env (workspaceRoot repo_provider))"
    and status: "statusText s' =
             (case workspacePkgJson repo_provider of
                Nullish \<Rightarrow> ''Workspace: Loading...''
              | Object m \<Rightarrow>
                  ''Workspace: '' @ js_str (pj_name m) @ '', '' @ show_nat (length res)
                    @ '' packages'')"
    by blast
  have l: "length res = 3"
    by (simp add: res w p)
  have "statusText s' = ''Workspace: repo, 3 packages''"
    by (simp add: status l n w named_def js_str_def)
  then show ?thesis
    using r d by (simp add: g res w p)
qed

text \<open>
  Claim C7. \<^verbatim>\<open>getChildren\<close> on a node that is not the root and whose out-edge set
  is empty returns the empty sequence.
\<close>

theorem getChildren_leaf_is_empty:
  assumes "\<not> root el" and "ws_children (workspace el) = Some []"
  shows "fst (getChildren e (Some el) s) = Inr []"
  using assms by (simp add: getChildren_def Let_def split: prod.splits)

theorem getChildren_leaf_is_empty_witness:
  "\<not> root (node repo_env ''/repo'' ''lib-b'') \<and>
   ws_children (workspace (node repo_env ''/repo'' ''lib-b'')) = Some [] \<and>
   fst (getChildren repo_env (Some (node repo_env ''/repo'' ''lib-b'')) repo_provider) = Inr []"
proof -
  have a: "\<not> root (node repo_env ''/repo'' ''lib-b'')"
    by (simp add: node_def load_item_def new_DependencyTreeItem_def Let_def)
  have b: "ws_children (workspace (node repo_env ''/repo'' ''lib-b'')) = Some []"
    by (simp add: node_def load_item_def new_DependencyTreeItem_def repo_env_def Let_def)
  show ?thesis
    using a b getChildren_leaf_is_empty [OF a b, of repo_env repo_provider] by simp
qed

text \<open>
  Claim C8. Every node a load materializes holds the out-edge set the dependency tree
  gives for its name (empty when the tree has none), and its collapse state is
  \<open>collapse_hint\<close> of that set: collapsed when the set is non-empty, none when it is
  empty.
\<close>

theorem load_collapse_state_from_out_edges:
  "\<forall>(name, it) \<in> set (ld_items (fst (loadDependencyTree e r s))).
     \<exists>out_edges.
       out_edges = (case getDependencyTree e (getWorkspaces e r) name of
                      None \<Rightarrow> [] | Some c \<Rightarrow> c) \<and>
       ws_children (workspace it) = Some out_edges \<and>
       collapsibleState it = collapse_hint out_edges"
proof (clarify)
  fix name it
  assume "(name, it) \<in> set (ld_items (fst (loadDependencyTree e r s)))"
  then have "\<exists>w. (name, w) \<in> set (getWorkspaces e r) \<and>
      it = load_item (getDependencyTree e (getWorkspaces e r))
             (js_or (workspaceToolOverride e) (getWorkspaceTool e r)) name w"
    using load_loop_mem [of name it _ _ "getWorkspaces e r" "[]"]
    by (simp add: loadDependencyTree_items)
  then show "\<exists>out_edges.
       out_edges = (case getDependencyTree e (getWorkspaces e r) name of
                      None \<Rightarrow> [] | Some c \<Rightarrow> c) \<and>
       ws_children (workspace it) = Some out_edges \<and>
       collapsibleState it = collapse_hint out_edges"
    by (auto simp: load_item_def new_DependencyTreeItem_def collapse_hint_def Let_def)
qed

theorem load_collapse_state_from_out_edges_witness:
  "(''app'', node repo_env ''/repo'' ''app'')
     \<in> set (ld_items (fst (loadDependencyTree repo_env ''/repo'' repo_provider))) \<and>
   (''lib-b'', node repo_env ''/repo'' ''lib-b'')
     \<in> set (ld_items (fst (loadDependencyTree repo_env ''/repo'' repo_provider))) \<and>
   collapsibleState (node repo_env ''/repo'' ''app'') = Collapsed \<and>
   collapsibleState (node repo_env ''/repo'' ''lib-b'') = StateNone"
proof -
  let ?its = "ld_items (fst (loadDependencyTree repo_env ''/repo'' repo_provider))"
  have its: "?its = [(''app'', node repo_env ''/repo'' ''app''),
      (''lib-a'', node repo_env ''/repo'' ''lib-a''),
      (''lib-b'', node repo_env ''/repo'' ''lib-b'')]"
    by (simp add: loadDependencyTree_items node_def repo_env_def)
  have a: "(''app'', node repo_env ''/repo'' ''app'') \<in> set ?its"
    and b: "(''lib-b'', node repo_env ''/repo'' ''lib-b'') \<in> set ?its"
    by (simp_all add: its)
  have t: "getDependencyTree repo_env (getWorkspaces repo_env ''/repo'') ''app'' = Some [''lib-a'']"
    "getDependencyTree repo_env (getWorkspaces repo_env ''/repo'') ''lib-b'' = Some []"
    by (simp_all add: repo_env_def)
  from load_collapse_state_from_out_edges [of repo_env "''/repo''" repo_provider] a b
  have "collapsibleState (node repo_env ''/repo'' ''app'') = collapse_hint [''lib-a'']"
    and "collapsibleState (node repo_env ''/repo'' ''lib-b'') = collapse_hint []"
    by (auto simp: t)
  then show ?thesis
    using a b by (simp add: collapse_hint_def)
qed

subsection \<open>The top-level query\<close>















text \<open>
  Claim C9. The command string kept in \<^verbatim>\<open>workspaceTool\<close> is the configured
  override when that is a non-empty string, otherwise the detected workspace tool when
  that is a non-empty string, otherwise \<^verbatim>\<open>npm run\<close>; so the fallback is what is
  kept when neither is there. The tool a load hands to its nodes is the override or
  else the detected tool, without the fallback.
\<close>

theorem workspaceTool_priority:
  assumes "getWorkspaceRoot e (workspaceRoot s) = Some wr"
    and "readJson e (Some (path_join e wr ''package.json'')) = Inr j"
  shows "workspaceTool (snd (getRootItem e its s)) =
           (if truthy (workspaceToolOverride e) then workspaceToolOverride e
            else if truthy (getWorkspaceTool e wr) then getWorkspaceTool e wr
            else Some ''npm run'') \<and>
         ld_tool (fst (loadDependencyTree e r s)) =
           (if truthy (workspaceToolOverride e) then workspaceToolOverride e
            else getWorkspaceTool e r)"
  using assms
  by (simp add: getRootItem_def loadDependencyTree_def Let_def js_or_def)

theorem workspaceTool_priority_witness:
  "getWorkspaceRoot repo_env (workspaceRoot repo_provider) = Some ''/repo'' \<and>
   readJson repo_env (Some (path_join repo_env ''/repo'' ''package.json''))
     = Inr (named ''repo'') \<and>
   workspaceTool (snd (getRootItem repo_env [] repo_provider)) = Some ''yarn'' \<and>
   workspaceTool (snd (getRootItem (repo_env\<lparr>workspaceToolOverride := Some ''pnpm run''\<rparr>) []
       repo_provider)) = Some ''pnpm run'' \<and>
   workspaceTool (snd (getRootItem (repo_env\<lparr>getWorkspaceTool := (\<lambda>r. None)\<rparr>) []
       repo_provider)) = Some ''npm run''"
proof -
  have a: "getWorkspaceRoot repo_env (workspaceRoot repo_provider) = Some ''/repo''"
    by (simp add: repo_env_def repo_provider_def constructor_def roots_def)
  have b: "readJson repo_env (Some (path_join repo_env ''/repo'' ''package.json''))
      = Inr (named ''repo'')"
    by (simp add: repo_env_def disk_def)
  have a1: "getWorkspaceRoot (repo_env\<lparr>workspaceToolOverride := Some ''pnpm run''\<rparr>)
      (workspaceRoot repo_provider) = Some ''/repo''"
    using a by simp
  have b1: "readJson (repo_env\<lparr>workspaceToolOverride := Some ''pnpm run''\<rparr>)
      (Some (path_join (repo_env\<lparr>workspaceToolOverride := Some ''pnpm run''\<rparr>) ''/repo''
        ''package.json'')) = Inr (named ''repo'')"
    using b by simp
  have a2: "getWorkspaceRoot (repo_env\<lparr>getWorkspaceTool := (\<lambda>r. None)\<rparr>)
      (workspaceRoot repo_provider) = Some ''/repo''"
    using a by simp
  have b2: "readJson (repo_env\<lparr>getWorkspaceTool := (\<lambda>r. None)\<rparr>)
      (Some (path_join (repo_env\<lparr>getWorkspaceTool := (\<lambda>r. None)\<rparr>) ''/repo''
        ''package.json'')) = Inr (named ''repo'')"
    using b by simp
  have t: "workspaceToolOverride repo_env = None"
    "getWorkspaceTool repo_env ''/repo'' = Some ''yarn''"
    by (simp_all add: repo_env_def)
  have "workspaceTool (snd (getRootItem repo_env [] repo_provider)) = Some ''yarn''"
    using workspaceTool_priority [OF a b, of "[]"] by (simp add: t truthy_def)
  moreover
  have "workspaceTool (snd (getRootItem (repo_env\<lparr>workspaceToolOverride := Some ''pnpm run''\<rparr>)
      [] repo_provider)) = Some ''pnpm run''"
    using workspaceTool_priority [OF a1 b1, of "[]"] by (simp add: truthy_def)
  moreover
  have "workspaceTool (snd (getRootItem (repo_env\<lparr>getWorkspaceTool := (\<lambda>r. None)\<rparr>) []
      repo_provider)) = Some ''npm run''"
    using workspaceTool_priority [OF a2 b2, of "[]"] by (simp add: t truthy_def)
  ultimately show ?thesis
    using a b by simp
qed

subsection \<open>\<^verbatim>\<open>getFirst\<close>\<close>

lemma getFirst_unfold:
  "getFirst e s =
     (case ld_items (fst (loadDependencyTree e (workspaceRoot s) s)) of
        [] \<Rightarrow> (Inl TypeError, snd (loadDependencyTree e (workspaceRoot s) s))
      | (k, v) # rest \<Rightarrow> (Inr v, snd (loadDependencyTree e (workspaceRoot s) s)))"
  by (simp add: getFirst_def case_prod_beta)

text \<open>
  Claim C10. \<^verbatim>\<open>getFirst\<close> needs a package: over an empty package set it throws a
  \<^verbatim>\<open>TypeError\<close> instead of returning an absent value, and over a non-empty one
  (keys distinct) it returns the node of the package enumerated first.
\<close>

theorem getFirst_needs_a_package:
  "(getWorkspaces e (workspaceRoot s) = [] \<longrightarrow> fst (getFirst e s) = Inl TypeError) \<and>
   (getWorkspaces e (workspaceRoot s) \<noteq> [] \<and>
    distinct (map fst (getWorkspaces e (workspaceRoot s))) \<longrightarrow>
      fst (getFirst e s) = Inr (hd (package_nodes e (workspaceRoot s))))"
proof (intro conjI impI)
  assume "getWorkspaces e (workspaceRoot s) = []"
  then have "ld_items (fst (loadDependencyTree e (workspaceRoot s) s)) = []"
    by (simp add: loadDependencyTree_items)
  then show "fst (getFirst e s) = Inl TypeError"
    by (simp add: getFirst_unfold)
next
  let ?r = "workspaceRoot s"
  assume a: "getWorkspaces e ?r \<noteq> [] \<and> distinct (map fst (getWorkspaces e ?r))"
  then obtain p ws where ws: "getWorkspaces e ?r = p # ws"
    by (cases "getWorkspaces e ?r") auto
  have len: "length (package_nodes e ?r) = length (getWorkspaces e ?r)"
    by (rule length_package_nodes)
  then obtain x xs where pn: "package_nodes e ?r = x # xs"
    by (cases "package_nodes e ?r") (auto simp: ws)
  have "ld_items (fst (loadDependencyTree e ?r s)) =
      zip (map fst (getWorkspaces e ?r)) (package_nodes e ?r)"
    using a by (simp add: loaded_items_distinct)
  then have "ld_items (fst (loadDependencyTree e ?r s)) = (fst p, x) # zip (map fst ws) xs"
    by (simp add: ws pn)
  then show "fst (getFirst e s) = Inr (hd (package_nodes e ?r))"
    by (simp add: getFirst_unfold pn)
qed

theorem getFirst_needs_a_package_witness:
  "getWorkspaces repo_env (workspaceRoot (constructor ''/empty'' Nullish)) = [] \<and>
   fst (getFirst repo_env (constructor ''/empty'' Nullish)) = Inl TypeError \<and>
   getWorkspaces repo_env (workspaceRoot repo_provider) \<noteq> [] \<and>
   distinct (map fst (getWorkspaces repo_env (workspaceRoot repo_provider))) \<and>
   fst (getFirst repo_env repo_provider) = Inr (node repo_env ''/repo'' ''app'')"
proof -
  have a: "getWorkspaces repo_env (workspaceRoot (constructor ''/empty'' Nullish)) = []"
    by (simp add: repo_env_def constructor_def)
  have b: "getWorkspaces repo_env (workspaceRoot repo_provider) \<noteq> [] \<and>
      distinct (map fst (getWorkspaces repo_env (workspaceRoot repo_provider)))"
    by (simp add: repo_env_def repo_provider_def constructor_def)
  have w: "workspaceRoot repo_provider = ''/repo''"
    by (simp add: repo_provider_def constructor_def)
  have p: "hd (package_nodes repo_env ''/repo'') = node repo_env ''/repo'' ''app''"
    by (simp add: package_nodes_def node_def repo_env_def)
  have "fst (getFirst repo_env (constructor ''/empty'' Nullish)) = Inl TypeError"
    using getFirst_needs_a_package [of repo_env "constructor ''/empty'' Nullish"] a by blast
  moreover have "fst (getFirst repo_env repo_provider) = Inr (node repo_env ''/repo'' ''app'')"
    using getFirst_needs_a_package [of repo_env repo_provider] b by (simp add: w p)
  ultimately show ?thesis
    using a b by simp
qed

subsection \<open>Expanding a package node\<close>

lemma getChildren_package:
  assumes "\<not> root el" and "ws_children (workspace el) = Some keys"
  shows "getChildren e (Some el) s =
           (if length keys \<noteq> 0
            then map_keys (ld_items (fst (loadDependencyTree e (workspaceRoot s) s))) el keys keys
                   (snd (loadDependencyTree e (workspaceRoot s) s))
            else (Inr [], snd (loadDependencyTree e (workspaceRoot s) s)))"
  using assms by (simp add: getChildren_def Let_def case_prod_beta)

lemma example_load:
  "ld_items (fst (loadDependencyTree repo_env ''/repo'' s)) =
     [(''app'', node repo_env ''/repo'' ''app''),
      (''lib-a'', node repo_env ''/repo'' ''lib-a''),
      (''lib-b'', node repo_env ''/repo'' ''lib-b'')]"
  by (simp add: loadDependencyTree_items node_def repo_env_def)

lemma cycle_load:
  "ld_items (fst (loadDependencyTree cycle_env ''/repo'' s)) =
     [(''A'', node cycle_env ''/repo'' ''A''), (''B'', node cycle_env ''/repo'' ''B'')]"
  by (simp add: loadDependencyTree_items node_def cycle_env_def)

lemma cycle_nodes:
  "\<not> root (node cycle_env ''/repo'' n)"
  "ws_name (workspace (node cycle_env ''/repo'' n)) = Some n"
  "ws_children (workspace (node cycle_env ''/repo'' ''A'')) = Some [''B'']"
  "ws_children (workspace (node cycle_env ''/repo'' ''B'')) = Some [''A'']"
  by (simp_all add: node_def load_item_def new_DependencyTreeItem_def Let_def cycle_env_def
        pkg_info_def)

text \<open>
  Claim C1. In the workspace where \<open>A\<close> depends on \<open>B\<close> and \<open>B\<close> on \<open>A\<close>, expanding
  \<open>A\<close> returns the node of \<open>B\<close> and expanding \<open>B\<close> returns the node of \<open>A\<close>, but
  neither expansion shows a circular-dependency notice: the test in the callback asks
  whether the expanded node's own name is among its own out-edge names.
\<close>

theorem mutual_dependency_shows_no_notice:
  "fst (getChildren cycle_env (Some (node cycle_env ''/repo'' ''A'')) repo_provider)
     = Inr [Some (node cycle_env ''/repo'' ''B'')] \<and>
   shown (snd (getChildren cycle_env (Some (node cycle_env ''/repo'' ''A'')) repo_provider))
     = [] \<and>
   fst (getChildren cycle_env (Some (node cycle_env ''/repo'' ''B'')) repo_provider)
     = Inr [Some (node cycle_env ''/repo'' ''A'')] \<and>
   shown (snd (getChildren cycle_env (Some (node cycle_env ''/repo'' ''B'')) repo_provider))
     = []"
proof -
  have w: "workspaceRoot repo_provider = ''/repo''" "shown repo_provider = []"
    by (simp_all add: repo_provider_def constructor_def)
  have qa: "\<not> keys_includes [''B''] (ws_name (workspace (node cycle_env ''/repo'' ''A'')))"
    and qb: "\<not> keys_includes [''A''] (ws_name (workspace (node cycle_env ''/repo'' ''B'')))"
    by (simp_all add: cycle_nodes keys_includes_def)
  have a: "getChildren cycle_env (Some (node cycle_env ''/repo'' ''A'')) repo_provider =
      (Inr [Some (node cycle_env ''/repo'' ''B'')],
       snd (loadDependencyTree cycle_env ''/repo'' repo_provider))"
    by (simp add: getChildren_package [OF cycle_nodes(1) cycle_nodes(3)] w
          map_keys_quiet [OF qa] cycle_load map_get_def
          del: map_keys.simps)
  have b: "getChildren cycle_env (Some (node cycle_env ''/repo'' ''B'')) repo_provider =
      (Inr [Some (node cycle_env ''/repo'' ''A'')],
       snd (loadDependencyTree cycle_env ''/repo'' repo_provider))"
    by (simp add: getChildren_package [OF cycle_nodes(1) cycle_nodes(4)] w
          map_keys_quiet [OF qb] cycle_load map_get_def
          del: map_keys.simps)
  show ?thesis
    by (simp add: a b loadDependencyTree_state w)
qed

text \<open>
  Claim C4, as stated, fails: \<open>stale_app\<close> names \<open>lib-a\<close> and \<open>lib-c\<close>, the index of
  the load holds no \<open>lib-c\<close>, and the sequence returned has two entries, the second one
  \<^verbatim>\<open>undefined\<close>.
\<close>

theorem missing_name_is_not_omitted:
  "\<not> root stale_app \<and>
   ws_children (workspace stale_app) = Some [''lib-a'', ''lib-c''] \<and>
   map_get (items (snd (getChildren repo_env (Some stale_app) repo_provider))) ''lib-c'' = None \<and>
   fst (getChildren repo_env (Some stale_app) repo_provider)
     = Inr [Some (node repo_env ''/repo'' ''lib-a''), None]"
proof -
  have w: "workspaceRoot repo_provider = ''/repo''"
    by (simp add: repo_provider_def constructor_def)
  have r: "\<not> root stale_app"
    and c: "ws_children (workspace stale_app) = Some [''lib-a'', ''lib-c'']"
    and n: "ws_name (workspace stale_app) = Some ''app''"
    by (simp_all add: stale_app_def node_def load_item_def new_DependencyTreeItem_def Let_def
          pkg_info_def)
  have q: "\<not> keys_includes [''lib-a'', ''lib-c''] (ws_name (workspace stale_app))"
    by (simp add: n keys_includes_def)
  have g: "getChildren repo_env (Some stale_app) repo_provider =
      (Inr [Some (node repo_env ''/repo'' ''lib-a''), None],
       snd (loadDependencyTree repo_env ''/repo'' repo_provider))"
    by (simp add: getChildren_package [OF r c] w map_keys_quiet [OF q] example_load map_get_def
          del: map_keys.simps)
  show ?thesis
    using r c by (simp add: g loadDependencyTree_state example_load map_get_def)
qed

text \<open>
  Claim C4, amended. For a node that is not the root and whose own name is not among
  its out-edge names, \<^verbatim>\<open>getChildren\<close> returns one entry per out-edge name, in the
  order of the set: the node the index holds for a name it has, and
  \<^verbatim>\<open>undefined\<close> for a name it does not have. No error is raised and no notice is
  shown.
\<close>

theorem getChildren_one_entry_per_out_edge:
  assumes "\<not> root el"
    and "ws_children (workspace el) = Some keys"
    and "\<not> keys_includes keys (ws_name (workspace el))"
  shows "fst (getChildren e (Some el) s) =
           Inr (map (map_get (items (snd (getChildren e (Some el) s)))) keys) \<and>
         length (map (map_get (items (snd (getChildren e (Some el) s)))) keys) = length keys \<and>
         shown (snd (getChildren e (Some el) s)) = shown s"
proof -
  let ?its = "ld_items (fst (loadDependencyTree e (workspaceRoot s) s))"
  have g: "getChildren e (Some el) s =
      (Inr (map (map_get ?its) keys), snd (loadDependencyTree e (workspaceRoot s) s))"
    by (simp add: getChildren_package [OF assms(1,2)] map_keys_quiet [OF assms(3)]
          del: map_keys.simps)
  show ?thesis
    by (simp add: g loadDependencyTree_state)
qed

theorem getChildren_one_entry_per_out_edge_witness:
  "\<not> root stale_app \<and>
   ws_children (workspace stale_app) = Some [''lib-a'', ''lib-c''] \<and>
   \<not> keys_includes [''lib-a'', ''lib-c''] (ws_name (workspace stale_app)) \<and>
   fst (getChildren repo_env (Some stale_app) repo_provider) =
     Inr (map (map_get (items (snd (getChildren repo_env (Some stale_app) repo_provider))))
            [''lib-a'', ''lib-c'']) \<and>
   shown (snd (getChildren repo_env (Some stale_app) repo_provider)) = []"
proof -
  have r: "\<not> root stale_app"
    and c: "ws_children (workspace stale_app) = Some [''lib-a'', ''lib-c'']"
    and n: "ws_name (workspace stale_app) = Some ''app''"
    by (simp_all add: stale_app_def node_def load_item_def new_DependencyTreeItem_def Let_def
          pkg_info_def)
  have q: "\<not> keys_includes [''lib-a'', ''lib-c''] (ws_name (workspace stale_app))"
    by (simp add: n keys_includes_def)
  have s: "shown repo_provider = []"
    by (simp add: repo_provider_def constructor_def)
  show ?thesis
    using r c q getChildren_one_entry_per_out_edge [OF r c q, of repo_env repo_provider]
    by (simp add: s)
qed

subsection \<open>\<^verbatim>\<open>setActiveFile\<close>\<close>

lemma setActiveFile_items: "items (snd (setActiveFile e f s)) = items s"
  by (simp add: setActiveFile_def Let_def refresh_def
        split: sum.splits option.splits json.splits)

lemma setActiveFile_reader_throws:
  "readJson e (pkgUp e (path_dirname e f)) = Inl err \<Longrightarrow> setActiveFile e f s = (Inl err, s)"
  by (simp add: setActiveFile_def Let_def)

lemma setActiveFile_no_root:
  "getWorkspaceRoot e (path_dirname e f) = None \<Longrightarrow> \<exists>err. setActiveFile e f s = (Inl err, s)"
  by (simp add: setActiveFile_def Let_def split: sum.splits)

lemma setActiveFile_ok:
  assumes "getWorkspaceRoot e (path_dirname e f) = Some wr"
    and "readJson e (pkgUp e (path_dirname e f)) = Inr (Object m)"
    and "readJson e (Some (path_join e wr ''package.json'')) = Inr j"
  shows "setActiveFile e f s =
           (Inr (),
            s\<lparr>workspaceRoot := wr, workspacePkgJson := j,
              activePackage := (case pj_name m of None \<Rightarrow> None | Some n \<Rightarrow> map_get (items s) n),
              fired := (if wr = workspaceRoot s then fired s else fired s + 1)\<rparr>)"
  using assms by (simp add: setActiveFile_def Let_def refresh_def split: option.splits)






text \<open>
  Claim C5, as stated, fails. No manifest is found from \<open>/tmp\<close> or from
  \<open>/mono/docs\<close>. For the file in \<open>/tmp\<close>, which no workspace owns,
  \<^verbatim>\<open>setActiveFile\<close> throws, whether the reader throws on the absent path or
  answers it with an object. For the file in \<open>/mono/docs\<close>, with the reader that
  answers, it completes, replaces the current root and fires a tree-changed event.
\<close>

theorem no_manifest_is_not_guarded:
  "pkgUp repo_env (path_dirname repo_env ''/tmp/notes.txt'') = None \<and>
   fst (setActiveFile repo_env ''/tmp/notes.txt'' repo_provider) = Inl ReadError \<and>
   pkgUp lenient_env (path_dirname lenient_env ''/tmp/notes.txt'') = None \<and>
   fst (setActiveFile lenient_env ''/tmp/notes.txt'' repo_provider) = Inl TypeError \<and>
   pkgUp lenient_env (path_dirname lenient_env ''/mono/docs/notes.txt'') = None \<and>
   fst (setActiveFile lenient_env ''/mono/docs/notes.txt'' repo_provider) = Inr () \<and>
   workspaceRoot repo_provider = ''/repo'' \<and>
   workspaceRoot (snd (setActiveFile lenient_env ''/mono/docs/notes.txt'' repo_provider))
     = ''/mono'' \<and>
   fired repo_provider = 0 \<and>
   fired (snd (setActiveFile lenient_env ''/mono/docs/notes.txt'' repo_provider)) = 1"
proof -
  have d: "dirname_posix ''/tmp/notes.txt'' = ''/tmp''"
    "dirname_posix ''/mono/docs/notes.txt'' = ''/mono/docs''"
    by (simp_all add: dirname_posix_def)
  have strict: "path_dirname repo_env = dirname_posix" "pkgUp repo_env ''/tmp'' = None"
    "readJson repo_env None = Inl ReadError"
    by (simp_all add: repo_env_def nearest_def)
  have lenient: "path_dirname lenient_env = dirname_posix"
    "pkgUp lenient_env ''/tmp'' = None" "pkgUp lenient_env ''/mono/docs'' = None"
    "getWorkspaceRoot lenient_env ''/tmp'' = None"
    "getWorkspaceRoot lenient_env ''/mono/docs'' = Some ''/mono''"
    "readJson lenient_env None = Inr (Object \<lparr>pj_name = None, pj_version = None\<rparr>)"
    "readJson lenient_env (Some (path_join lenient_env ''/mono'' ''package.json''))
       = Inr (Object \<lparr>pj_name = None, pj_version = None\<rparr>)"
    by (simp_all add: lenient_env_def repo_env_def nearest_def roots_def disk_def)
  have a: "setActiveFile repo_env ''/tmp/notes.txt'' repo_provider = (Inl ReadError, repo_provider)"
    by (rule setActiveFile_reader_throws) (simp add: strict d)
  have b: "fst (setActiveFile lenient_env ''/tmp/notes.txt'' repo_provider) = Inl TypeError"
    by (simp add: setActiveFile_def Let_def lenient d)
  have c: "setActiveFile lenient_env ''/mono/docs/notes.txt'' repo_provider =
      (Inr (), repo_provider\<lparr>workspaceRoot := ''/mono'',
         workspacePkgJson := Object \<lparr>pj_name = None, pj_version = None\<rparr>,
         activePackage := None,
         fired := (if ''/mono'' = workspaceRoot repo_provider then fired repo_provider
                   else fired repo_provider + 1)\<rparr>)"
    using setActiveFile_ok [of lenient_env "''/mono/docs/notes.txt''" "''/mono''"
        "\<lparr>pj_name = None, pj_version = None\<rparr>" "Object \<lparr>pj_name = None, pj_version = None\<rparr>"
        repo_provider]
    by (simp add: lenient d)
  have p: "workspaceRoot repo_provider = ''/repo''" "fired repo_provider = 0"
    by (simp_all add: repo_provider_def constructor_def)
  show ?thesis
    by (simp add: a b c p strict lenient d)
qed

text \<open>
  Claim C5, amended. For a file with no owning manifest \<^verbatim>\<open>setActiveFile\<close> has no
  guard and hands the absent path to the manifest reader. It never touches the loaded
  index. When the reader throws on the absent path, or when no workspace root owns the
  file either, it throws and leaves the provider as it was, with no event fired. When
  the reader answers with an object and the owning root and its manifest are read, it
  returns nothing, makes that root the current root, makes the index entry of the
  object's name the active node (absent when the object has no name), and fires one
  tree-changed event exactly when the root differs from the previous one.
\<close>

theorem setActiveFile_without_manifest:
  assumes "pkgUp e (path_dirname e f) = None"
  shows "items (snd (setActiveFile e f s)) = items s \<and>
         (readJson e None = Inl err \<longrightarrow> setActiveFile e f s = (Inl err, s)) \<and>
         (getWorkspaceRoot e (path_dirname e f) = None \<longrightarrow>
            (\<exists>err'. setActiveFile e f s = (Inl err', s))) \<and>
         (readJson e None = Inr (Object m) \<and>
          getWorkspaceRoot e (path_dirname e f) = Some wr \<and>
          readJson e (Some (path_join e wr ''package.json'')) = Inr j \<longrightarrow>
            setActiveFile e f s =
              (Inr (),
               s\<lparr>workspaceRoot := wr, workspacePkgJson := j,
                 activePackage :=
                   (case pj_name m of None \<Rightarrow> None | Some n \<Rightarrow> map_get (items s) n),
                 fired := (if wr = workspaceRoot s then fired s else fired s + 1)\<rparr>))"
proof (intro conjI impI)
  show "items (snd (setActiveFile e f s)) = items s"
    by (rule setActiveFile_items)
next
  assume "readJson e None = Inl err"
  then show "setActiveFile e f s = (Inl err, s)"
    using assms by (simp add: setActiveFile_reader_throws)
next
  assume "getWorkspaceRoot e (path_dirname e f) = None"
  then show "\<exists>err'. setActiveFile e f s = (Inl err', s)"
    by (rule setActiveFile_no_root)
next
  assume a: "readJson e None = Inr (Object m) \<and>
          getWorkspaceRoot e (path_dirname e f) = Some wr \<and>
          readJson e (Some (path_join e wr ''package.json'')) = Inr j"
  then have "readJson e (pkgUp e (path_dirname e f)) = Inr (Object m)"
    using assms by simp
  with a show "setActiveFile e f s =
              (Inr (),
               s\<lparr>workspaceRoot := wr, workspacePkgJson := j,
                 activePackage :=
                   (case pj_name m of None \<Rightarrow> None | Some n \<Rightarrow> map_get (items s) n),
                 fired := (if wr = workspaceRoot s then fired s else fired s + 1)\<rparr>)"
    by (simp add: setActiveFile_ok)
qed

theorem setActiveFile_without_manifest_witness:
  "pkgUp repo_env (path_dirname repo_env ''/tmp/notes.txt'') = None \<and>
   readJson repo_env None = Inl ReadError \<and>
   getWorkspaceRoot repo_env (path_dirname repo_env ''/tmp/notes.txt'') = None \<and>
   setActiveFile repo_env ''/tmp/notes.txt'' repo_provider = (Inl ReadError, repo_provider) \<and>
   pkgUp lenient_env (path_dirname lenient_env ''/mono/docs/notes.txt'') = None \<and>
   readJson lenient_env None = Inr (Object \<lparr>pj_name = None, pj_version = None\<rparr>) \<and>
   getWorkspaceRoot lenient_env (path_dirname lenient_env ''/mono/docs/notes.txt'')
     = Some ''/mono'' \<and>
   readJson lenient_env (Some (path_join lenient_env ''/mono'' ''package.json''))
     = Inr (Object \<lparr>pj_name = None, pj_version = None\<rparr>) \<and>
   fst (setActiveFile lenient_env ''/mono/docs/notes.txt'' repo_provider) = Inr () \<and>
   activePackage (snd (setActiveFile lenient_env ''/mono/docs/notes.txt'' repo_provider))
     = None \<and>
   fired (snd (setActiveFile lenient_env ''/mono/docs/notes.txt'' repo_provider)) = 1"
proof -
  have d: "path_dirname repo_env ''/tmp/notes.txt'' = ''/tmp''"
    "path_dirname lenient_env ''/mono/docs/notes.txt'' = ''/mono/docs''"
    by (simp_all add: lenient_env_def repo_env_def dirname_posix_def)
  have strict: "pkgUp repo_env (path_dirname repo_env ''/tmp/notes.txt'') = None"
    "readJson repo_env None = Inl ReadError"
    "getWorkspaceRoot repo_env (path_dirname repo_env ''/tmp/notes.txt'') = None"
    unfolding d by (simp_all add: repo_env_def nearest_def roots_def)
  have lenient: "pkgUp lenient_env (path_dirname lenient_env ''/mono/docs/notes.txt'') = None"
    "readJson lenient_env None = Inr (Object \<lparr>pj_name = None, pj_version = None\<rparr>)"
    "getWorkspaceRoot lenient_env (path_dirname lenient_env ''/mono/docs/notes.txt'')
       = Some ''/mono''"
    "readJson lenient_env (Some (path_join lenient_env ''/mono'' ''package.json''))
       = Inr (Object \<lparr>pj_name = None, pj_version = None\<rparr>)"
    unfolding d by (simp_all add: lenient_env_def repo_env_def nearest_def roots_def disk_def)
  have p: "workspaceRoot repo_provider = ''/repo''" "fired repo_provider = 0"
    by (simp_all add: repo_provider_def constructor_def)
  have a: "setActiveFile repo_env ''/tmp/notes.txt'' repo_provider = (Inl ReadError, repo_provider)"
    using setActiveFile_without_manifest [OF strict(1), where err = ReadError
        and s = repo_provider] strict(2)
    by blast
  have b: "setActiveFile lenient_env ''/mono/docs/notes.txt'' repo_provider =
      (Inr (), repo_provider\<lparr>workspaceRoot := ''/mono'',
         workspacePkgJson := Object \<lparr>pj_name = None, pj_version = None\<rparr>,
         activePackage := None,
         fired := (if ''/mono'' = workspaceRoot repo_provider then fired repo_provider
                   else fired repo_provider + 1)\<rparr>)"
    using setActiveFile_without_manifest [OF lenient(1), where s = repo_provider
        and m = "\<lparr>pj_name = None, pj_version = None\<rparr>" and wr = "''/mono''"
        and j = "Object \<lparr>pj_name = None, pj_version = None\<rparr>"] lenient(2,3,4)
    by simp
  show ?thesis
    using strict lenient by (simp add: a b p)
qed

end
